theory Spec2Isabelle
  imports Complex_Main "HOL-Library.Multiset"
begin

unbundle bit_operations_syntax

section \<open>Data model (src/types/voxel.ts)\<close>

text \<open>
  A \<open>Voxel\<close> is \<open>{x, y, height, color}\<close>. The coordinate fields are called \<open>vx\<close> and
  \<open>vy\<close> here, so that \<open>x\<close> and \<open>y\<close> stay free for variables. The grid coordinates and the
  height are whole numbers in every caller (grid cells, the height slider), so they are
  \<open>int\<close>; nothing in the hook bounds them.
\<close>

record Voxel =
  vx :: int
  vy :: int
  height :: int
  color :: string

text \<open>\<open>HistoryState\<close>: a copy of the voxel map and the time it was taken.\<close>

type_synonym VoxelMap = "(string \<times> Voxel) list"

record HistoryState =
  hs_voxels :: VoxelMap
  hs_timestamp :: nat

subsection \<open>JavaScript \<open>Map\<close> with string keys\<close>

text \<open>
  A JavaScript \<open>Map\<close> iterates in insertion order, and \<open>generateSceneSVG\<close> sorts
  \<open>voxels.values()\<close> with a stable sort, so the order is observable: the map is an
  association list. \<open>set\<close> on a present key replaces the value in place, on a new key
  appends; \<open>delete\<close> removes the entry; \<open>new Map(m)\<close> is a copy in the same order (the
  identity here).
\<close>

fun map_get :: "(string \<times> 'v) list \<Rightarrow> string \<Rightarrow> 'v option" where
  "map_get [] k = None"
| "map_get ((k', v) # m) k = (if k' = k then Some v else map_get m k)"

definition map_has :: "(string \<times> 'v) list \<Rightarrow> string \<Rightarrow> bool" where
  "map_has m k = (case map_get m k of None \<Rightarrow> False | Some _ \<Rightarrow> True)"

fun map_set :: "(string \<times> 'v) list \<Rightarrow> string \<Rightarrow> 'v \<Rightarrow> (string \<times> 'v) list" where
  "map_set [] k v = [(k, v)]"
| "map_set ((k', v') # m) k v = (if k' = k then (k, v) # m else (k', v') # map_set m k v)"

fun map_delete :: "(string \<times> 'v) list \<Rightarrow> string \<Rightarrow> (string \<times> 'v) list" where
  "map_delete [] k = []"
| "map_delete ((k', v') # m) k = (if k' = k then m else (k', v') # map_delete m k)"

definition map_values :: "(string \<times> 'v) list \<Rightarrow> 'v list" where
  "map_values m = map snd m"

definition map_size :: "(string \<times> 'v) list \<Rightarrow> nat" where
  "map_size m = length m"

subsection \<open>Numbers as text\<close>

text \<open>
  \<open>`${x},${y}`\<close> prints each number in decimal. For the whole numbers of this model that
  is the usual decimal numeral with a leading \<open>-\<close> for a negative one (JavaScript switches
  to exponent notation only from \<open>1e21\<close> on). \<open>natToString\<close> writes a natural number in
  radix 10 or 16, with lower-case digits as \<open>toString(16)\<close> does; the test \<open>radix < 2\<close> only
  makes the recursion total.
\<close>

definition digitChar :: "nat \<Rightarrow> char" where
  "digitChar d =
     (if d = 0 then CHR ''0'' else if d = 1 then CHR ''1'' else if d = 2 then CHR ''2''
      else if d = 3 then CHR ''3'' else if d = 4 then CHR ''4'' else if d = 5 then CHR ''5''
      else if d = 6 then CHR ''6'' else if d = 7 then CHR ''7'' else if d = 8 then CHR ''8''
      else if d = 9 then CHR ''9'' else if d = 10 then CHR ''a'' else if d = 11 then CHR ''b''
      else if d = 12 then CHR ''c'' else if d = 13 then CHR ''d'' else if d = 14 then CHR ''e''
      else CHR ''f'')"

fun natToString :: "nat \<Rightarrow> nat \<Rightarrow> string" where
  "natToString radix n =
     (if radix < 2 \<or> n < radix then [digitChar n]
      else natToString radix (n div radix) @ [digitChar (n mod radix)])"

declare natToString.simps [simp del]

definition intToString :: "int \<Rightarrow> string" where
  "intToString i = (if i < 0 then CHR ''-'' # natToString 10 (nat (- i)) else natToString 10 (nat i))"

section \<open>The voxel grid hook \<open>useVoxelGrid\<close> (src/utils/isometric.ts, lines 254 to 416)\<close>

text \<open>
  The hook's six state cells. Every callback reads the state of the render it was created
  in and writes through the setters; one callback run is one step on this record. The
  clock read by \<open>Date.now()\<close> is an argument of each step that takes a snapshot.
\<close>

record GridHook =
  voxels :: VoxelMap
  selectedColor :: string
  blockHeight :: int
  lightingAngle :: real
  history :: "HistoryState list"
  historyIndex :: int

definition MAX_HISTORY :: nat where
  "MAX_HISTORY = 50"

text \<open>The state of the first render: \<open>TECH_COLORS[0].hex\<close> is \<open>#3B82F6\<close>.\<close>

definition initialHook :: GridHook where
  "initialHook = \<lparr>voxels = [], selectedColor = ''#3B82F6'', blockHeight = 1,
     lightingAngle = 45, history = [], historyIndex = - 1\<rparr>"

definition getKey :: "int \<Rightarrow> int \<Rightarrow> string" where
  "getKey x y = intToString x @ '','' @ intToString y"

text \<open>\<open>arr.slice(0, e)\<close>: a negative end counts from the back, and both ends are clipped.\<close>

definition slice0 :: "'a list \<Rightarrow> int \<Rightarrow> 'a list" where
  "slice0 xs e =
     (let n = int (length xs);
          k = (if e < 0 then max (n + e) 0 else min e n)
      in take (nat k) xs)"

text \<open>\<open>arr.shift()\<close> drops the first element (and does nothing on an empty array).\<close>

definition shift :: "'a list \<Rightarrow> 'a list" where
  "shift xs = (case xs of [] \<Rightarrow> [] | _ # r \<Rightarrow> r)"

definition saveToHistory :: "VoxelMap \<Rightarrow> nat \<Rightarrow> GridHook \<Rightarrow> GridHook" where
  "saveToHistory newVoxels now s =
     (let newHistory = slice0 (history s) (historyIndex s + 1)
                         @ [\<lparr>hs_voxels = newVoxels, hs_timestamp = now\<rparr>]
      in if length newHistory > MAX_HISTORY
         then s\<lparr>history := shift newHistory\<rparr>
         else s\<lparr>historyIndex := historyIndex s + 1, history := newHistory\<rparr>)"

definition addVoxel :: "int \<Rightarrow> int \<Rightarrow> nat \<Rightarrow> GridHook \<Rightarrow> GridHook" where
  "addVoxel x y now s =
     (let key = getKey x y;
          newVoxels =
            (case map_get (voxels s) key of
               Some existingVoxel \<Rightarrow>
                 if color existingVoxel = selectedColor s
                 then map_set (voxels s) key (existingVoxel\<lparr>height := blockHeight s\<rparr>)
                 else map_set (voxels s) key
                        \<lparr>vx = x, vy = y, height = blockHeight s, color = selectedColor s\<rparr>
             | None \<Rightarrow>
                 map_set (voxels s) key
                   \<lparr>vx = x, vy = y, height = blockHeight s, color = selectedColor s\<rparr>)
      in saveToHistory newVoxels now (s\<lparr>voxels := newVoxels\<rparr>))"

definition removeVoxel :: "int \<Rightarrow> int \<Rightarrow> nat \<Rightarrow> GridHook \<Rightarrow> GridHook" where
  "removeVoxel x y now s =
     (let key = getKey x y
      in if map_has (voxels s) key
         then (let newVoxels = map_delete (voxels s) key
               in saveToHistory newVoxels now (s\<lparr>voxels := newVoxels\<rparr>))
         else s)"

definition clearGrid :: "nat \<Rightarrow> GridHook \<Rightarrow> GridHook" where
  "clearGrid now s = saveToHistory [] now (s\<lparr>voxels := []\<rparr>)"

text \<open>
  \<open>history[newIndex].voxels\<close> throws a \<open>TypeError\<close> when \<open>newIndex\<close> is not an index of
  the array (the element is \<open>undefined\<close>); that is the only way \<open>undo\<close> and \<open>redo\<close> fail.
  \<open>setHistoryIndex(newIndex)\<close> has run by then, so the error carries the hook with the new
  index and the old store.
\<close>

datatype error = TypeError GridHook

definition at_index :: "'a list \<Rightarrow> int \<Rightarrow> 'a option" where
  "at_index xs i = (if 0 \<le> i \<and> i < int (length xs) then Some (xs ! nat i) else None)"

definition undo :: "GridHook \<Rightarrow> error + GridHook" where
  "undo s =
     (if historyIndex s > 0
      then (let newIndex = historyIndex s - 1
            in case at_index (history s) newIndex of
                 None \<Rightarrow> Inl (TypeError (s\<lparr>historyIndex := newIndex\<rparr>))
               | Some h \<Rightarrow> Inr (s\<lparr>historyIndex := newIndex, voxels := hs_voxels h\<rparr>))
      else Inr s)"

definition redo :: "GridHook \<Rightarrow> error + GridHook" where
  "redo s =
     (if historyIndex s < int (length (history s)) - 1
      then (let newIndex = historyIndex s + 1
            in case at_index (history s) newIndex of
                 None \<Rightarrow> Inl (TypeError (s\<lparr>historyIndex := newIndex\<rparr>))
               | Some h \<Rightarrow> Inr (s\<lparr>historyIndex := newIndex, voxels := hs_voxels h\<rparr>))
      else Inr s)"

definition hasVoxel :: "GridHook \<Rightarrow> int \<Rightarrow> int \<Rightarrow> bool" where
  "hasVoxel s x y = map_has (voxels s) (getKey x y)"


definition canUndo :: "GridHook \<Rightarrow> bool" where
  "canUndo s = (historyIndex s > 0)"

definition canRedo :: "GridHook \<Rightarrow> bool" where
  "canRedo s = (historyIndex s < int (length (history s)) - 1)"

section \<open>Color math (src/utils/isometric.ts, lines 172 to 253)\<close>

text \<open>
  \<open>hex.replace('#', '')\<close> removes the first \<open>#\<close> only.
\<close>

fun removeFirstHash :: "string \<Rightarrow> string" where
  "removeFirstHash [] = []"
| "removeFirstHash (c # cs) = (if c = CHR ''#'' then cs else c # removeFirstHash cs)"

text \<open>
  \<open>parseInt(s, 16)\<close>: leading white space is skipped, then an optional sign, then an
  optional \<open>0x\<close> or \<open>0X\<close>, then the longest run of hexadecimal digits is read; with no
  digit the result is \<open>NaN\<close>, which is \<open>None\<close> here. Strings are byte strings, so the white
  space is the ASCII white space; the value is the exact integer (a double is exact up to
  \<open>2^53\<close>, that is thirteen hexadecimal digits).
\<close>

definition isWhiteSpace :: "char \<Rightarrow> bool" where
  "isWhiteSpace c =
     (let n = of_char c :: nat in n = 9 \<or> n = 10 \<or> n = 11 \<or> n = 12 \<or> n = 13 \<or> n = 32)"

definition hexDigitValue :: "char \<Rightarrow> nat option" where
  "hexDigitValue c =
     (let n = of_char c :: nat in
      if 48 \<le> n \<and> n \<le> 57 then Some (n - 48)
      else if 97 \<le> n \<and> n \<le> 102 then Some (n - 87)
      else if 65 \<le> n \<and> n \<le> 70 then Some (n - 55)
      else None)"

fun hexDigitsPrefix :: "string \<Rightarrow> nat list" where
  "hexDigitsPrefix [] = []"
| "hexDigitsPrefix (c # cs) =
     (case hexDigitValue c of None \<Rightarrow> [] | Some d \<Rightarrow> d # hexDigitsPrefix cs)"

definition digitsValue :: "nat list \<Rightarrow> nat" where
  "digitsValue ds = foldl (\<lambda>acc d. acc * 16 + d) 0 ds"

definition stripSign :: "string \<Rightarrow> int \<times> string" where
  "stripSign s =
     (case s of
        c # cs \<Rightarrow> if c = CHR ''-'' then (- 1, cs) else if c = CHR ''+'' then (1, cs) else (1, s)
      | [] \<Rightarrow> (1, s))"

definition stripHexPrefix :: "string \<Rightarrow> string" where
  "stripHexPrefix s =
     (case s of
        a # b # cs \<Rightarrow> if a = CHR ''0'' \<and> (b = CHR ''x'' \<or> b = CHR ''X'') then cs else s
      | _ \<Rightarrow> s)"

definition parseInt16 :: "string \<Rightarrow> int option" where
  "parseInt16 str =
     (let (sign, s) = stripSign (dropWhile isWhiteSpace str);
          ds = hexDigitsPrefix (stripHexPrefix s)
      in if ds = [] then None else Some (sign * int (digitsValue ds)))"

text \<open>
  The bitwise operators work on \<open>ToInt32\<close> of their operands: the number is truncated
  towards zero and reduced modulo \<open>2^32\<close> into the signed range; \<open>NaN\<close> becomes \<open>0\<close>.
\<close>

definition wrapInt32 :: "int \<Rightarrow> int" where
  "wrapInt32 n = (n + 2 ^ 31) mod 2 ^ 32 - 2 ^ 31"

definition truncateNum :: "real \<Rightarrow> int" where
  "truncateNum r = (if r < 0 then \<lceil>r\<rceil> else \<lfloor>r\<rfloor>)"

definition toInt32 :: "real \<Rightarrow> int" where
  "toInt32 r = wrapInt32 (truncateNum r)"

definition channel :: "int option \<Rightarrow> nat \<Rightarrow> real \<Rightarrow> real" where
  "channel num sh amount =
     (let n32 = (case num of None \<Rightarrow> 0 | Some n \<Rightarrow> wrapInt32 n)
      in max 0 (min 255 (real_of_int (drop_bit sh n32 AND 0xff) + amount)))"

text \<open>\<open>s.padStart(n, c)\<close> fills \<open>s\<close> on the left with \<open>c\<close> up to the length \<open>n\<close>.\<close>

definition padStart :: "nat \<Rightarrow> char \<Rightarrow> string \<Rightarrow> string" where
  "padStart n c s = replicate (n - length s) c @ s"

text \<open>
  Each channel is clamped to \<open>[0, 255]\<close>, so the packed value is not negative and
  \<open>toString(16)\<close> writes its hexadecimal numeral, in lower-case digits.
\<close>

definition adjustBrightness :: "string \<Rightarrow> real \<Rightarrow> string" where
  "adjustBrightness hex amount =
     (let num = parseInt16 (removeFirstHash hex);
          r = channel num 16 amount;
          g = channel num 8 amount;
          b = channel num 0 amount;
          rgb = wrapInt32 (push_bit 16 (toInt32 r)) OR wrapInt32 (push_bit 8 (toInt32 g)) OR toInt32 b
      in CHR ''#'' # padStart 6 CHR ''0'' (natToString 16 (nat rgb)))"

section \<open>Isometric rendering (src/utils/isometric.ts, lines 1 to 171)\<close>

text \<open>
  Coordinates on the screen are JavaScript doubles; they are real numbers here, so the
  rounding of each floating-point operation is not part of the model. How a double is
  printed inside a template string is the parameter \<open>num\<close> of the functions that build
  text. The \<open>path\<close> of a \<open>VoxelFace\<close> is kept as its corner points in drawing order;
  \<open>pathString\<close> writes them as the text \<open>M x y L x y L x y L x y Z\<close> when the element
  is put together.
\<close>

record IsometricCoords =
  px :: real
  py :: real

record VoxelFace =
  path :: "IsometricCoords list"
  fill :: string

datatype faceType = Top | Left | Right

definition ISO_ANGLE :: real where
  "ISO_ANGLE = pi / 6"

definition ISO_SCALE :: real where
  "ISO_SCALE = 20"

definition gridToIsometric :: "real \<Rightarrow> real \<Rightarrow> real \<Rightarrow> IsometricCoords" where
  "gridToIsometric x y z =
     \<lparr>px = (x - y) * cos ISO_ANGLE * ISO_SCALE,
      py = (x + y) * sin ISO_ANGLE * ISO_SCALE - z * ISO_SCALE\<rparr>"

fun calculateLighting :: "real \<Rightarrow> faceType \<Rightarrow> real" where
  "calculateLighting angle Top = 0"
| "calculateLighting angle Left = - 20 + sin (angle * pi / 180) * 10"
| "calculateLighting angle Right = - 30 + cos (angle * pi / 180) * 10"

fun facePoints :: "Voxel \<Rightarrow> faceType \<Rightarrow> IsometricCoords list" where
  "facePoints v Top =
     (let x = real_of_int (vx v); y = real_of_int (vy v); h = real_of_int (height v)
      in [gridToIsometric x y h, gridToIsometric (x + 1) y h,
          gridToIsometric (x + 1) (y + 1) h, gridToIsometric x (y + 1) h])"
| "facePoints v Left =
     (let x = real_of_int (vx v); y = real_of_int (vy v); h = real_of_int (height v)
      in [gridToIsometric x y h, gridToIsometric x (y + 1) h,
          gridToIsometric x (y + 1) 0, gridToIsometric x y 0])"
| "facePoints v Right =
     (let x = real_of_int (vx v); y = real_of_int (vy v); h = real_of_int (height v)
      in [gridToIsometric (x + 1) y h, gridToIsometric (x + 1) (y + 1) h,
          gridToIsometric (x + 1) (y + 1) 0, gridToIsometric (x + 1) y 0])"

definition generateVoxelFace :: "Voxel \<Rightarrow> faceType \<Rightarrow> real \<Rightarrow> VoxelFace" where
  "generateVoxelFace voxel ft angle =
     (let lighting = calculateLighting angle ft;
          fill = adjustBrightness (color voxel) lighting
      in \<lparr>path = facePoints voxel ft, fill = fill\<rparr>)"

text \<open>The text of a path; a face with no points has the empty path.\<close>

fun pathString :: "(real \<Rightarrow> string) \<Rightarrow> IsometricCoords list \<Rightarrow> string" where
  "pathString num [p1, p2, p3, p4] =
     ''M '' @ num (px p1) @ '' '' @ num (py p1) @ '' L '' @ num (px p2) @ '' '' @ num (py p2)
       @ '' L '' @ num (px p3) @ '' '' @ num (py p3) @ '' L '' @ num (px p4) @ '' '' @ num (py p4)
       @ '' Z''"
| "pathString num ps = []"

text \<open>The sort key of the comparator \<open>(a, b) => orderA - orderB\<close>.\<close>

definition order :: "Voxel \<Rightarrow> int" where
  "order v = vy v + vx v * 100"

text \<open>
  \<open>Array.prototype.sort\<close> is stable, and the comparator is the difference of the keys, so
  the result is the stable sort by key.
\<close>

definition sortedVoxels :: "VoxelMap \<Rightarrow> Voxel list" where
  "sortedVoxels m = sort_key order (map_values m)"

definition dq :: string where
  "dq = [CHR 0x22]"

definition pathElement :: "(real \<Rightarrow> string) \<Rightarrow> VoxelFace \<Rightarrow> string" where
  "pathElement num f =
     ''<path d='' @ dq @ pathString num (path f) @ dq @ '' fill='' @ dq @ fill f @ dq
       @ '' stroke='' @ dq @ ''#1e293b'' @ dq @ '' stroke-width='' @ dq @ ''0.5'' @ dq @ ''/>''"

text \<open>What one run of the \<open>forEach\<close> body pushes on \<open>faces\<close>: right, left, top.\<close>

definition voxelFaces :: "real \<Rightarrow> Voxel \<Rightarrow> VoxelFace list" where
  "voxelFaces angle voxel =
     [generateVoxelFace voxel Right angle,
      generateVoxelFace voxel Left angle,
      generateVoxelFace voxel Top angle]"

fun pushFaces :: "(real \<Rightarrow> string) \<Rightarrow> real \<Rightarrow> Voxel list \<Rightarrow> string list \<Rightarrow> string list" where
  "pushFaces num angle [] faces = faces"
| "pushFaces num angle (voxel # rest) faces =
     pushFaces num angle rest (faces @ map (pathElement num) (voxelFaces angle voxel))"

definition corners :: "Voxel \<Rightarrow> IsometricCoords list" where
  "corners v =
     (let x = real_of_int (vx v); y = real_of_int (vy v); h = real_of_int (height v)
      in [gridToIsometric x y h, gridToIsometric (x + 1) y h,
          gridToIsometric (x + 1) (y + 1) h, gridToIsometric x (y + 1) h,
          gridToIsometric x y 0, gridToIsometric (x + 1) y 0,
          gridToIsometric (x + 1) (y + 1) 0, gridToIsometric x (y + 1) 0])"

text \<open>
  The running bounds \<open>minX, minY, maxX, maxY\<close> start at plus and minus \<open>Infinity\<close>:
  \<open>None\<close> until the first corner has been seen. (With no corner at all the view box
  would be printed from the infinities; the branch is there for totality, a store that
  is not empty always has corners.)
\<close>

type_synonym bounds = "(real \<times> real \<times> real \<times> real) option"

fun growBounds :: "bounds \<Rightarrow> IsometricCoords \<Rightarrow> bounds" where
  "growBounds None c = Some (px c, py c, px c, py c)"
| "growBounds (Some (minX, minY, maxX, maxY)) c =
     Some (min minX (px c), min minY (py c), max maxX (px c), max maxY (py c))"

definition sceneBounds :: "Voxel list \<Rightarrow> bounds" where
  "sceneBounds vs = foldl growBounds None (concat (map corners vs))"

fun joinWith :: "string \<Rightarrow> string list \<Rightarrow> string" where
  "joinWith sep [] = []"
| "joinWith sep [s] = s"
| "joinWith sep (s # t # r) = s @ sep @ joinWith sep (t # r)"

definition viewBoxString :: "(real \<Rightarrow> string) \<Rightarrow> bounds \<Rightarrow> string" where
  "viewBoxString num b =
     (case b of
        Some (minX, minY, maxX, maxY) \<Rightarrow>
          (let padding = 40;
               width = maxX - minX + padding * 2;
               height = maxY - minY + padding * 2;
               viewBoxX = minX - padding;
               viewBoxY = minY - padding
           in num viewBoxX @ '' '' @ num viewBoxY @ '' '' @ num width @ '' '' @ num height)
      | None \<Rightarrow> ''Infinity Infinity -Infinity -Infinity'')"

definition emptySceneSVG :: string where
  "emptySceneSVG =
     ''<svg xmlns='' @ dq @ ''http://www.w3.org/2000/svg'' @ dq
       @ '' viewBox='' @ dq @ ''0 0 400 400'' @ dq @ ''></svg>''"

definition sceneFaces :: "(real \<Rightarrow> string) \<Rightarrow> VoxelMap \<Rightarrow> real \<Rightarrow> string list" where
  "sceneFaces num m angle = pushFaces num angle (sortedVoxels m) []"

definition generateSceneSVG :: "(real \<Rightarrow> string) \<Rightarrow> VoxelMap \<Rightarrow> real \<Rightarrow> string" where
  "generateSceneSVG num m angle =
     (if map_size m = 0 then emptySceneSVG
      else
        ''<svg xmlns='' @ dq @ ''http://www.w3.org/2000/svg'' @ dq
          @ '' viewBox='' @ dq @ viewBoxString num (sceneBounds (sortedVoxels m)) @ dq
          @ '' preserveAspectRatio='' @ dq @ ''xMidYMid meet'' @ dq @ ''>'' @ [CHR 0x0A]
          @ ''  <g>'' @ [CHR 0x0A]
          @ ''    '' @ joinWith (CHR 0x0A # ''    '') (sceneFaces num m angle) @ [CHR 0x0A]
          @ ''  </g>'' @ [CHR 0x0A]
          @ ''</svg>'')"

section \<open>Notions used to state the properties\<close>

text \<open>
  The history invariant: at most \<open>MAX_HISTORY\<close> snapshots, and the index is \<open>-1\<close> exactly
  when there is none, an index of the array otherwise.
\<close>

definition hist_inv :: "GridHook \<Rightarrow> bool" where
  "hist_inv s =
     (length (history s) \<le> MAX_HISTORY \<and>
      (if history s = [] then historyIndex s = - 1
       else 0 \<le> historyIndex s \<and> historyIndex s < int (length (history s))))"

text \<open>Sequencing of steps that may throw: the first error ends the run.\<close>

definition andThen :: "error + 'a \<Rightarrow> ('a \<Rightarrow> error + 'b) \<Rightarrow> error + 'b" where
  "andThen r f = (case r of Inl e \<Rightarrow> Inl e | Inr a \<Rightarrow> f a)"

fun undoTimes :: "nat \<Rightarrow> GridHook \<Rightarrow> error + GridHook" where
  "undoTimes 0 s = Inr s"
| "undoTimes (Suc n) s = andThen (undo s) (undoTimes n)"

text \<open>The map that \<open>addVoxel\<close> builds and stores (it does not depend on the clock).\<close>

definition newVoxelsOf :: "int \<Rightarrow> int \<Rightarrow> GridHook \<Rightarrow> VoxelMap" where
  "newVoxelsOf x y s = voxels (addVoxel x y 0 s)"

text \<open>
  The edits of the store, each run at a time of the clock. An edit takes a snapshot unless
  it is the removal of a voxel that is not there.
\<close>

datatype edit = AddVoxel int int | RemoveVoxel int int | ClearGrid

fun applyEdit :: "edit \<Rightarrow> nat \<Rightarrow> GridHook \<Rightarrow> GridHook" where
  "applyEdit (AddVoxel x y) now s = addVoxel x y now s"
| "applyEdit (RemoveVoxel x y) now s = removeVoxel x y now s"
| "applyEdit ClearGrid now s = clearGrid now s"

fun takesSnapshot :: "edit \<Rightarrow> GridHook \<Rightarrow> bool" where
  "takesSnapshot (RemoveVoxel x y) s = hasVoxel s x y"
| "takesSnapshot (AddVoxel x y) s = True"
| "takesSnapshot ClearGrid s = True"

definition applyEdits :: "(edit \<times> nat) list \<Rightarrow> GridHook \<Rightarrow> GridHook" where
  "applyEdits es s = foldl (\<lambda>s' (e, t). applyEdit e t s') s es"

fun allTakeSnapshots :: "(edit \<times> nat) list \<Rightarrow> GridHook \<Rightarrow> bool" where
  "allTakeSnapshots [] s = True"
| "allTakeSnapshots ((e, t) # es) s = (takesSnapshot e s \<and> allTakeSnapshots es (applyEdit e t s))"

text \<open>The store after the first \<open>k + 1\<close> edits of a run from the initial hook.\<close>

definition storeAfter :: "(edit \<times> nat) list \<Rightarrow> nat \<Rightarrow> VoxelMap" where
  "storeAfter es k = voxels (applyEdits (take (Suc k) es) initialHook)"

subsection \<open>Sample states and runs\<close>

text \<open>A hook whose history is full and whose index is at the newest snapshot.\<close>

definition fullHistory :: GridHook where
  "fullHistory = initialHook\<lparr>history := replicate 50 \<lparr>hs_voxels = [], hs_timestamp = 0\<rparr>,
                              historyIndex := 49\<rparr>"

text \<open>A hook with three snapshots and the index at the first: two snapshots can be redone.\<close>

definition redoBranch :: GridHook where
  "redoBranch = initialHook\<lparr>history := [\<lparr>hs_voxels = [], hs_timestamp = 1\<rparr>,
                                           \<lparr>hs_voxels = [], hs_timestamp = 2\<rparr>,
                                           \<lparr>hs_voxels = [], hs_timestamp = 3\<rparr>],
                             historyIndex := 0\<rparr>"

text \<open>Sixty edits, each painting another cell of the 20 by 20 grid.\<close>

definition sixtyEdits :: "(edit \<times> nat) list" where
  "sixtyEdits = map (\<lambda>i. (AddVoxel (int (i mod 20)) (int (i div 20)), i)) [0..<60]"

text \<open>The voxel of the first click on cell \<open>(0, 0)\<close> with the settings of the first render.\<close>

definition blueVoxel :: Voxel where
  "blueVoxel = \<lparr>vx = 0, vy = 0, height = 1, color = ''#3B82F6''\<rparr>"

text \<open>A store painted at \<open>(1, 0)\<close> first and at \<open>(0, 1)\<close> second.\<close>

definition twoVoxels :: VoxelMap where
  "twoVoxels = voxels (addVoxel 0 1 2 (addVoxel 1 0 1 initialHook))"

section \<open>Lemmas\<close>

subsection \<open>Numbers as text, keys\<close>

lemma natToString_small: "n < radix \<Longrightarrow> natToString radix n = [digitChar n]"
  by (subst natToString.simps) simp

lemma natToString_step:
  "2 \<le> radix \<Longrightarrow> radix \<le> n \<Longrightarrow>
   natToString radix n = natToString radix (n div radix) @ [digitChar (n mod radix)]"
  by (subst natToString.simps) simp

lemmas key_eval = getKey_def intToString_def natToString_small natToString_step digitChar_def

lemma key_0_0: "getKey 0 0 = ''0,0''"
  by (simp add: key_eval)

lemma key_1_0: "getKey 1 0 = ''1,0''"
  by (simp add: key_eval)

lemma key_0_1: "getKey 0 1 = ''0,1''"
  by (simp add: key_eval)

lemma key_10_0: "getKey 10 0 = ''10,0''"
  by (simp add: key_eval)

lemma key_20_0: "getKey 20 0 = ''20,0''"
  by (simp add: key_eval)

lemma key_3_4: "getKey 3 4 = ''3,4''"
  by (simp add: key_eval)

subsection \<open>The map\<close>

lemma map_get_set_same: "map_get (map_set m k v) k = Some v"
  by (induction m) auto

subsection \<open>Saving a snapshot\<close>

lemma andThen_Inr [simp]: "andThen (Inr a) f = f a"
  by (simp add: andThen_def)

lemma andThen_Inl [simp]: "andThen (Inl e) f = Inl e"
  by (simp add: andThen_def)

lemma slice0_take: "0 \<le> e \<Longrightarrow> slice0 xs e = take (nat e) xs"
  by (simp add: slice0_def Let_def min_def)

lemma shift_tl: "shift xs = tl xs"
  by (cases xs) (simp_all add: shift_def)

lemma voxels_save [simp]: "voxels (saveToHistory nv now s) = voxels s"
  by (simp add: saveToHistory_def Let_def)

lemma save_frame [simp]:
  "selectedColor (saveToHistory nv now s) = selectedColor s"
  "blockHeight (saveToHistory nv now s) = blockHeight s"
  "lightingAngle (saveToHistory nv now s) = lightingAngle s"
  by (simp_all add: saveToHistory_def Let_def)

lemma hist_inv_initial: "hist_inv initialHook"
  by (simp add: hist_inv_def initialHook_def)

lemma hist_inv_save: "hist_inv s \<Longrightarrow> hist_inv (saveToHistory nv now s)"
  by (auto simp: hist_inv_def saveToHistory_def slice0_take shift_tl MAX_HISTORY_def Let_def
      split: if_splits)

lemma undo_ok: "hist_inv s \<Longrightarrow> \<exists>s'. undo s = Inr s' \<and> hist_inv s'"
  by (auto simp: hist_inv_def undo_def at_index_def Let_def split: if_splits)

lemma redo_ok: "hist_inv s \<Longrightarrow> \<exists>s'. redo s = Inr s' \<and> hist_inv s'"
  by (auto simp: hist_inv_def redo_def at_index_def Let_def split: if_splits)

lemma undo_noop: "\<not> canUndo s \<Longrightarrow> undo s = Inr s"
  by (simp add: canUndo_def undo_def)

lemma redo_noop: "\<not> canRedo s \<Longrightarrow> redo s = Inr s"
  by (simp add: canRedo_def redo_def)

lemma undo_step:
  assumes "0 < historyIndex s" and "historyIndex s - 1 < int (length (history s))"
  shows "undo s = Inr (s\<lparr>historyIndex := historyIndex s - 1,
                         voxels := hs_voxels (history s ! nat (historyIndex s - 1))\<rparr>)"
  using assms by (simp add: undo_def at_index_def Let_def)

lemma save_evicts:
  assumes "hist_inv s"
    and "MAX_HISTORY < length (slice0 (history s) (historyIndex s + 1) @ [h])"
  shows "slice0 (history s) (historyIndex s + 1) = history s"
    and "length (history s) = MAX_HISTORY"
  using assms
  by (auto simp: hist_inv_def slice0_take MAX_HISTORY_def split: if_splits)

lemma save_truncates:
  assumes "0 \<le> historyIndex s + 1"
  shows "history (saveToHistory nv now s)
         = (let h = take (nat (historyIndex s + 1)) (history s)
                      @ [\<lparr>hs_voxels = nv, hs_timestamp = now\<rparr>]
            in if MAX_HISTORY < length h then tl h else h)"
  using assms by (simp add: saveToHistory_def Let_def slice0_take shift_tl)

lemma save_history_nonempty:
  "history (saveToHistory nv now s) \<noteq> [] \<and>
   last (history (saveToHistory nv now s)) = \<lparr>hs_voxels = nv, hs_timestamp = now\<rparr>"
proof (cases "MAX_HISTORY < length (slice0 (history s) (historyIndex s + 1)
                 @ [\<lparr>hs_voxels = nv, hs_timestamp = now\<rparr>])")
  case True
  then have "slice0 (history s) (historyIndex s + 1) \<noteq> []"
    by (auto simp: MAX_HISTORY_def)
  with True show ?thesis
    by (simp add: saveToHistory_def Let_def shift_tl last_tl)
next
  case False
  then show ?thesis by (simp add: saveToHistory_def Let_def)
qed

lemma save_at_tip:
  assumes tip: "historyIndex s = int (length (history s)) - 1"
    and len: "length (history s) \<le> MAX_HISTORY"
  shows "history (saveToHistory nv now s)
           = (if length (history s) = MAX_HISTORY then tl (history s) else history s)
               @ [\<lparr>hs_voxels = nv, hs_timestamp = now\<rparr>]"
    and "historyIndex (saveToHistory nv now s)
           = int (length (history (saveToHistory nv now s))) - 1"
  using assms
  by (auto simp: saveToHistory_def Let_def slice0_take shift_tl
        MAX_HISTORY_def tl_append split: list.splits)

subsection \<open>Edits\<close>

lemma addVoxel_as_save:
  "addVoxel x y now s = saveToHistory (newVoxelsOf x y s) now (s\<lparr>voxels := newVoxelsOf x y s\<rparr>)"
  by (simp add: newVoxelsOf_def addVoxel_def Let_def split: option.split)

lemma newVoxelsOf_set:
  "\<exists>v. newVoxelsOf x y s = map_set (voxels s) (getKey x y) v
       \<and> height v = blockHeight s \<and> color v = selectedColor s"
proof (cases "map_get (voxels s) (getKey x y)")
  case None
  then show ?thesis
    by (intro exI [of _ "\<lparr>vx = x, vy = y, height = blockHeight s, color = selectedColor s\<rparr>"])
       (simp add: newVoxelsOf_def addVoxel_def Let_def)
next
  case (Some ev)
  show ?thesis
  proof (cases "color ev = selectedColor s")
    case True
    with Some show ?thesis
      by (intro exI [of _ "ev\<lparr>height := blockHeight s\<rparr>"])
         (simp add: newVoxelsOf_def addVoxel_def Let_def)
  next
    case False
    with Some show ?thesis
      by (intro exI [of _ "\<lparr>vx = x, vy = y, height = blockHeight s, color = selectedColor s\<rparr>"])
         (simp add: newVoxelsOf_def addVoxel_def Let_def)
  qed
qed

lemma hasVoxel_addVoxel: "hasVoxel (addVoxel x y now s) x y"
  by (simp add: hasVoxel_def map_has_def addVoxel_def Let_def map_get_set_same split: option.split)

lemma addVoxel_fields:
  assumes "0 \<le> historyIndex s + 1"
    and "length (take (nat (historyIndex s + 1)) (history s)) < MAX_HISTORY"
  shows "history (addVoxel x y now s)
           = take (nat (historyIndex s + 1)) (history s)
               @ [\<lparr>hs_voxels = newVoxelsOf x y s, hs_timestamp = now\<rparr>]"
    and "historyIndex (addVoxel x y now s) = historyIndex s + 1"
  using assms
  by (simp_all add: addVoxel_as_save saveToHistory_def Let_def slice0_take)

lemma first_voxel: "voxels (addVoxel 0 0 now initialHook) = [(''0,0'', blueVoxel)]"
  by (simp add: addVoxel_def Let_def key_0_0 initialHook_def blueVoxel_def)

lemma first_voxel_angle: "lightingAngle (addVoxel 0 0 now initialHook) = 45"
  by (simp add: addVoxel_as_save initialHook_def)

lemma two_voxels:
  "twoVoxels = [(''1,0'', \<lparr>vx = 1, vy = 0, height = 1, color = ''#3B82F6''\<rparr>),
                (''0,1'', \<lparr>vx = 0, vy = 1, height = 1, color = ''#3B82F6''\<rparr>)]"
  by (simp add: twoVoxels_def addVoxel_def Let_def key_1_0 key_0_1 initialHook_def)

lemma applyEdits_Nil [simp]: "applyEdits [] s = s"
  by (simp add: applyEdits_def)

lemma applyEdits_Cons [simp]: "applyEdits ((e, t) # es) s = applyEdits es (applyEdit e t s)"
  by (simp add: applyEdits_def)

lemma applyEdits_snoc [simp]:
  "applyEdits (es @ [(e, t)]) s = applyEdit e t (applyEdits es s)"
  by (simp add: applyEdits_def)

lemma allTakeSnapshots_snoc:
  "allTakeSnapshots (es @ [(e, t)]) s
     = (allTakeSnapshots es s \<and> takesSnapshot e (applyEdits es s))"
  by (induction es arbitrary: s) auto

lemma adds_take_snapshots:
  "allTakeSnapshots (map (\<lambda>i. (AddVoxel (f i) (g i), h i)) xs) s"
  by (induction xs arbitrary: s) simp_all

lemma edit_as_save:
  assumes "takesSnapshot e s"
  shows "applyEdit e now s
         = saveToHistory (voxels (applyEdit e now s)) now (s\<lparr>voxels := voxels (applyEdit e now s)\<rparr>)"
proof (cases e)
  case (AddVoxel x y)
  then show ?thesis
    using addVoxel_as_save [of x y now s] by simp
next
  case (RemoveVoxel x y)
  then show ?thesis
    using assms by (simp add: removeVoxel_def hasVoxel_def Let_def)
next
  case ClearGrid
  then show ?thesis by (simp add: clearGrid_def)
qed

lemma edit_at_tip:
  assumes snap: "takesSnapshot e s"
    and tip: "historyIndex s = int (length (history s)) - 1"
    and len: "length (history s) \<le> MAX_HISTORY"
  shows "history (applyEdit e now s)
           = (if length (history s) = MAX_HISTORY then tl (history s) else history s)
               @ [\<lparr>hs_voxels = voxels (applyEdit e now s), hs_timestamp = now\<rparr>]"
    and "historyIndex (applyEdit e now s) = int (length (history (applyEdit e now s))) - 1"
proof -
  let ?nv = "voxels (applyEdit e now s)"
  have eq: "applyEdit e now s = saveToHistory ?nv now (s\<lparr>voxels := ?nv\<rparr>)"
    by (rule edit_as_save [OF snap])
  have tip': "historyIndex (s\<lparr>voxels := ?nv\<rparr>) = int (length (history (s\<lparr>voxels := ?nv\<rparr>))) - 1"
    and len': "length (history (s\<lparr>voxels := ?nv\<rparr>)) \<le> MAX_HISTORY"
    using tip len by simp_all
  show "history (applyEdit e now s)
           = (if length (history s) = MAX_HISTORY then tl (history s) else history s)
               @ [\<lparr>hs_voxels = ?nv, hs_timestamp = now\<rparr>]"
    using save_at_tip(1) [OF tip' len', of ?nv now] eq by simp
  show "historyIndex (applyEdit e now s) = int (length (history (applyEdit e now s))) - 1"
    using save_at_tip(2) [OF tip' len', of ?nv now] eq by simp
qed

lemma tl_drop_snoc: "m < length xs \<Longrightarrow> tl (drop m xs) @ [v] = drop (Suc m) (xs @ [v])"
  by (simp add: drop_Suc tl_drop)

lemma storeAfter_snoc:
  "map (storeAfter (es @ [e])) [0..<Suc (length es)]
     = map (storeAfter es) [0..<length es] @ [voxels (applyEdits (es @ [e]) initialHook)]"
  by (simp add: storeAfter_def)

text \<open>
  A run of edits that all take a snapshot leaves the index at the newest snapshot, and the
  history holds the stores after the last 50 edits, oldest first.
\<close>

lemma edits_at_tip:
  "allTakeSnapshots es initialHook \<Longrightarrow>
   historyIndex (applyEdits es initialHook) = int (length (history (applyEdits es initialHook))) - 1
   \<and> length (history (applyEdits es initialHook)) = min (length es) MAX_HISTORY
   \<and> map hs_voxels (history (applyEdits es initialHook))
       = drop (length es - MAX_HISTORY) (map (storeAfter es) [0..<length es])"
proof (induction es rule: rev_induct)
  case Nil
  show ?case by (simp add: initialHook_def)
next
  case (snoc et es)
  obtain e t where e: "et = (e, t)" by (cases et)
  let ?s = "applyEdits es initialHook"
  have all: "allTakeSnapshots es initialHook" and snap: "takesSnapshot e ?s"
    using snoc.prems by (simp_all add: e allTakeSnapshots_snoc)
  have tip: "historyIndex ?s = int (length (history ?s)) - 1"
    and len: "length (history ?s) = min (length es) MAX_HISTORY"
    and sn: "map hs_voxels (history ?s)
             = drop (length es - MAX_HISTORY) (map (storeAfter es) [0..<length es])"
    using snoc.IH [OF all] by simp_all
  have le: "length (history ?s) \<le> MAX_HISTORY" using len by simp
  note step = edit_at_tip [OF snap tip le, of t]
  have h': "history (applyEdits (es @ [et]) initialHook)
          = (if length (history ?s) = MAX_HISTORY then tl (history ?s) else history ?s)
              @ [\<lparr>hs_voxels = voxels (applyEdits (es @ [et]) initialHook), hs_timestamp = t\<rparr>]"
    using step(1) by (simp add: e)
  have a: "historyIndex (applyEdits (es @ [et]) initialHook)
           = int (length (history (applyEdits (es @ [et]) initialHook))) - 1"
    using step(2) by (simp add: e)
  have b: "length (history (applyEdits (es @ [et]) initialHook))
           = min (length (es @ [et])) MAX_HISTORY"
    unfolding h' using len by (auto simp: MAX_HISTORY_def min_def)
  have c: "map hs_voxels (history (applyEdits (es @ [et]) initialHook))
       = drop (length (es @ [et]) - MAX_HISTORY)
           (map (storeAfter (es @ [et])) [0..<length (es @ [et])])"
  proof (cases "length (history ?s) = MAX_HISTORY")
    case True
    then have ge: "MAX_HISTORY \<le> length es" using len by simp
    have "map hs_voxels (history (applyEdits (es @ [et]) initialHook))
          = tl (drop (length es - MAX_HISTORY) (map (storeAfter es) [0..<length es]))
             @ [voxels (applyEdits (es @ [et]) initialHook)]"
      unfolding h' using True by (simp add: map_tl sn)
    also have "\<dots> = drop (Suc (length es - MAX_HISTORY))
                      (map (storeAfter es) [0..<length es]
                         @ [voxels (applyEdits (es @ [et]) initialHook)])"
      by (rule tl_drop_snoc) (use ge in \<open>simp add: MAX_HISTORY_def\<close>)
    also have "Suc (length es - MAX_HISTORY) = Suc (length es) - MAX_HISTORY"
      using ge by simp
    finally show ?thesis by (simp add: storeAfter_snoc del: applyEdits_snoc upt_Suc)
  next
    case False
    then have lt: "length es < MAX_HISTORY" using len by (simp add: min_def split: if_splits)
    have "map hs_voxels (history (applyEdits (es @ [et]) initialHook))
          = map (storeAfter es) [0..<length es] @ [voxels (applyEdits (es @ [et]) initialHook)]"
      unfolding h' using False lt by (simp add: sn)
    then show ?thesis using lt by (simp add: storeAfter_snoc del: applyEdits_snoc upt_Suc)
  qed
  show ?case using a b c by simp
qed

text \<open>\<open>k\<close> calls of \<open>undo\<close>, while the index allows them, move the index down by \<open>k\<close>.\<close>

lemma undoTimes_steps:
  "int k \<le> historyIndex s \<Longrightarrow> historyIndex s < int (length (history s)) \<Longrightarrow>
   \<exists>s'. undoTimes k s = Inr s' \<and> historyIndex s' = historyIndex s - int k
        \<and> history s' = history s
        \<and> (if k = 0 then voxels s' = voxels s
            else voxels s' = hs_voxels (history s ! nat (historyIndex s - int k)))"
proof (induction k arbitrary: s)
  case 0
  show ?case by simp
next
  case (Suc k)
  let ?u = "s\<lparr>historyIndex := historyIndex s - 1,
              voxels := hs_voxels (history s ! nat (historyIndex s - 1))\<rparr>"
  have un: "undo s = Inr ?u"
    using Suc.prems by (intro undo_step) simp_all
  have "int k \<le> historyIndex ?u" "historyIndex ?u < int (length (history ?u))"
    using Suc.prems by simp_all
  from Suc.IH [OF this] obtain s' where
    r: "undoTimes k ?u = Inr s'" and i: "historyIndex s' = historyIndex ?u - int k"
    and h: "history s' = history ?u"
    and v: "if k = 0 then voxels s' = voxels ?u
            else voxels s' = hs_voxels (history ?u ! nat (historyIndex ?u - int k))"
    by blast
  have v': "voxels s' = hs_voxels (history s ! nat (historyIndex s - int (Suc k)))"
    using v by (cases "k = 0") (simp_all add: algebra_simps)
  show ?case
    by (rule exI [of _ s']) (use r i h v' un in \<open>simp add: algebra_simps\<close>)
qed

text \<open>Three edits, two undos and a fourth edit, for any cells and times.\<close>

lemma three_edits_two_undos_one_edit:
  "\<exists>s'. andThen (andThen (undo (addVoxel x3 y3 t3 (addVoxel x2 y2 t2 (addVoxel x1 y1 t1 initialHook))))
                    undo)
            (\<lambda>u. Inr (addVoxel x4 y4 t4 u)) = Inr s'
        \<and> map hs_timestamp (history s') = [t1, t4] \<and> historyIndex s' = 1
        \<and> \<not> canRedo s' \<and> redo s' = Inr s'"
proof -
  define s1 where "s1 = addVoxel x1 y1 t1 initialHook"
  define s2 where "s2 = addVoxel x2 y2 t2 s1"
  define s3 where "s3 = addVoxel x3 y3 t3 s2"
  define h1 where "h1 = \<lparr>hs_voxels = newVoxelsOf x1 y1 initialHook, hs_timestamp = t1\<rparr>"
  define h2 where "h2 = \<lparr>hs_voxels = newVoxelsOf x2 y2 s1, hs_timestamp = t2\<rparr>"
  define h3 where "h3 = \<lparr>hs_voxels = newVoxelsOf x3 y3 s2, hs_timestamp = t3\<rparr>"
  have i0: "historyIndex initialHook = - 1" "history initialHook = []"
    by (simp_all add: initialHook_def)
  have f1: "history s1 = [h1]" "historyIndex s1 = 0"
    unfolding s1_def h1_def
    using addVoxel_fields [of initialHook x1 y1 t1] by (simp_all add: i0 MAX_HISTORY_def)
  have f2: "history s2 = [h1, h2]" "historyIndex s2 = 1"
    unfolding s2_def h2_def
    using addVoxel_fields [of s1 x2 y2 t2] by (simp_all add: f1 MAX_HISTORY_def)
  have f3: "history s3 = [h1, h2, h3]" "historyIndex s3 = 2"
    unfolding s3_def h3_def
    using addVoxel_fields [of s2 x3 y3 t3] by (simp_all add: f2 MAX_HISTORY_def)
  define u1 where "u1 = s3\<lparr>historyIndex := 1, voxels := hs_voxels h2\<rparr>"
  define u2 where "u2 = u1\<lparr>historyIndex := 0, voxels := hs_voxels h1\<rparr>"
  have un1: "undo s3 = Inr u1"
    using undo_step [of s3] by (simp add: f3 u1_def)
  have g1: "history u1 = [h1, h2, h3]" "historyIndex u1 = 1"
    by (simp_all add: u1_def f3)
  have un2: "undo u1 = Inr u2"
    using undo_step [of u1] by (simp add: g1 u2_def)
  have g2: "history u2 = [h1, h2, h3]" "historyIndex u2 = 0"
    by (simp_all add: u2_def g1)
  define s4 where "s4 = addVoxel x4 y4 t4 u2"
  have f4: "history s4 = [h1, \<lparr>hs_voxels = newVoxelsOf x4 y4 u2, hs_timestamp = t4\<rparr>]"
    "historyIndex s4 = 1"
    unfolding s4_def
    using addVoxel_fields [of u2 x4 y4 t4] by (simp_all add: g2 MAX_HISTORY_def)
  have run: "andThen (andThen (undo s3) undo) (\<lambda>u. Inr (addVoxel x4 y4 t4 u)) = Inr s4"
    by (simp add: un1 un2 s4_def)
  have nr: "\<not> canRedo s4" by (simp add: canRedo_def f4)
  have ts: "map hs_timestamp (history s4) = [t1, t4]" by (simp add: f4 h1_def)
  have fin: "andThen (andThen (undo s3) undo) (\<lambda>u. Inr (addVoxel x4 y4 t4 u)) = Inr s4
        \<and> map hs_timestamp (history s4) = [t1, t4] \<and> historyIndex s4 = 1
        \<and> \<not> canRedo s4 \<and> redo s4 = Inr s4"
    using run nr ts f4(2) redo_noop [OF nr] by (intro conjI)
  show ?thesis
    by (rule exI [of _ s4]) (rule fin [unfolded s3_def s2_def s1_def])
qed

subsection \<open>Colors\<close>

lemma parse_blue: "parseInt16 ''3B82F6'' = Some 3900150"
  by (simp add: parseInt16_def stripSign_def stripHexPrefix_def isWhiteSpace_def
      hexDigitValue_def digitsValue_def)

lemma channels_blue:
  "channel (Some 3900150) 16 a = max 0 (min 255 (59 + a))"
  "channel (Some 3900150) 8 a = max 0 (min 255 (130 + a))"
  "channel (Some 3900150) 0 a = max 0 (min 255 (246 + a))"
  by (simp_all add: channel_def wrapInt32_def)

lemma toInt32_small:
  assumes "real_of_int n \<le> r" and "r < real_of_int n + 1" and "0 \<le> n" and "n < 256"
  shows "toInt32 r = n"
proof -
  have f: "\<lfloor>r\<rfloor> = n" using assms(1,2) by (simp add: floor_eq_iff)
  have "0 \<le> r" using assms(1,3) by linarith
  then have "truncateNum r = n" using f by (simp add: truncateNum_def)
  then show ?thesis using assms(3,4) by (simp add: toInt32_def wrapInt32_def)
qed

lemma hex_of_rgb:
  "natToString 16 3900150 = ''3b82f6''"
  "natToString 16 3044841 = ''2e75e9''"
  "natToString 16 2386911 = ''246bdf''"
  by (simp_all add: natToString_small natToString_step digitChar_def)

lemma adjust_blue_0: "adjustBrightness ''#3B82F6'' 0 = ''#3b82f6''"
proof -
  have t: "toInt32 59 = 59" "toInt32 130 = 130" "toInt32 246 = 246"
    using toInt32_small [of 59 59] toInt32_small [of 130 130] toInt32_small [of 246 246]
    by simp_all
  show ?thesis
    by (simp add: adjustBrightness_def Let_def parse_blue channels_blue t wrapInt32_def
        hex_of_rgb padStart_def)
qed

lemma adjust_blue_left:
  assumes "- 13 < a" and "a < - 12"
  shows "adjustBrightness ''#3B82F6'' a = ''#2e75e9''"
proof -
  have c: "max 0 (min 255 (59 + a)) = 59 + a" "max 0 (min 255 (130 + a)) = 130 + a"
    "max 0 (min 255 (246 + a)) = 246 + a"
    using assms by simp_all
  have t: "toInt32 (59 + a) = 46" "toInt32 (130 + a) = 117" "toInt32 (246 + a) = 233"
    using assms toInt32_small [of 46 "59 + a"] toInt32_small [of 117 "130 + a"]
      toInt32_small [of 233 "246 + a"]
    by simp_all
  show ?thesis
    by (simp add: adjustBrightness_def Let_def parse_blue channels_blue c t wrapInt32_def
        hex_of_rgb padStart_def)
qed

lemma adjust_blue_right:
  assumes "- 23 < a" and "a < - 22"
  shows "adjustBrightness ''#3B82F6'' a = ''#246bdf''"
proof -
  have c: "max 0 (min 255 (59 + a)) = 59 + a" "max 0 (min 255 (130 + a)) = 130 + a"
    "max 0 (min 255 (246 + a)) = 246 + a"
    using assms by simp_all
  have t: "toInt32 (59 + a) = 36" "toInt32 (130 + a) = 107" "toInt32 (246 + a) = 223"
    using assms toInt32_small [of 36 "59 + a"] toInt32_small [of 107 "130 + a"]
      toInt32_small [of 223 "246 + a"]
    by simp_all
  show ?thesis
    by (simp add: adjustBrightness_def Let_def parse_blue channels_blue c t wrapInt32_def
        hex_of_rgb padStart_def)
qed

lemma sqrt2_bounds: "7 / 5 < sqrt 2" "sqrt 2 < 8 / 5"
proof -
  show "7 / 5 < sqrt 2" by (rule real_less_rsqrt) (simp add: power2_eq_square)
  show "sqrt 2 < 8 / 5" by (rule real_less_lsqrt) (simp_all add: power2_eq_square)
qed

lemma lighting_45:
  "- 13 < calculateLighting 45 Left" "calculateLighting 45 Left < - 12"
  "- 23 < calculateLighting 45 Right" "calculateLighting 45 Right < - 22"
  using sqrt2_bounds by (simp_all add: sin_45 cos_45)

subsection \<open>The scene\<close>

lemma pushFaces_concat:
  "pushFaces num angle vs acc
     = acc @ concat (map (\<lambda>v. map (pathElement num) (voxelFaces angle v)) vs)"
  by (induction vs arbitrary: acc) simp_all

lemma sorted_single: "sortedVoxels [(k, v)] = [v]"
  by (simp add: sortedVoxels_def map_values_def)

lemma fill_face:
  "fill (generateVoxelFace v ft angle) = adjustBrightness (color v) (calculateLighting angle ft)"
  by (simp add: generateVoxelFace_def Let_def)

lemma no_path_in_empty_scene:
  assumes "emptySceneSVG = pre @ ''<path'' @ post"
  shows False
proof -
  have "CHR ''a'' \<in> set emptySceneSVG" by (subst assms) simp
  then show False by (simp add: emptySceneSVG_def dq_def)
qed

subsection \<open>The scene of two voxels, with numbers printed as their integer part\<close>

lemma joinWith_butlast:
  "fs \<noteq> [] \<Longrightarrow> joinWith sep fs = concat (map (\<lambda>f. f @ sep) (butlast fs)) @ last fs"
  by (induction sep fs rule: joinWith.induct) simp_all

lemma sortedVoxels_nonempty: "m \<noteq> [] \<Longrightarrow> sortedVoxels m \<noteq> []"
proof -
  assume "m \<noteq> []"
  then have "length (sortedVoxels m) \<noteq> 0"
    by (simp add: sortedVoxels_def map_values_def)
  then show ?thesis by auto
qed

lemma sqrt3_bounds: "173 / 100 < sqrt 3" "sqrt 3 < 174 / 100"
proof -
  show "173 / 100 < sqrt 3" by (rule real_less_rsqrt) (simp add: power2_eq_square)
  show "sqrt 3 < 174 / 100" by (rule real_less_lsqrt) (simp_all add: power2_eq_square)
qed

lemma px_grid: "px (gridToIsometric x y z) = (x - y) * (sqrt 3 * 10)"
  by (simp add: gridToIsometric_def ISO_ANGLE_def ISO_SCALE_def cos_30)

lemma py_grid: "py (gridToIsometric x y z) = (x + y) * 10 - z * 20"
  by (simp add: gridToIsometric_def ISO_ANGLE_def ISO_SCALE_def sin_30)

lemma px_floor:
  "x - y = 0 \<Longrightarrow> \<lfloor>px (gridToIsometric x y z)\<rfloor> = 0"
  "x - y = 1 \<Longrightarrow> \<lfloor>px (gridToIsometric x y z)\<rfloor> = 17"
  "x - y = 2 \<Longrightarrow> \<lfloor>px (gridToIsometric x y z)\<rfloor> = 34"
  "x - y = - 1 \<Longrightarrow> \<lfloor>px (gridToIsometric x y z)\<rfloor> = - 18"
  "x - y = - 2 \<Longrightarrow> \<lfloor>px (gridToIsometric x y z)\<rfloor> = - 35"
  using sqrt3_bounds by (simp_all add: px_grid floor_eq_iff)

lemma int_text:
  "intToString 0 = ''0''" "intToString 10 = ''10''" "intToString 17 = ''17''"
  "intToString 20 = ''20''" "intToString 30 = ''30''" "intToString 34 = ''34''"
  "intToString (- 10) = ''-10''" "intToString (- 18) = ''-18''" "intToString (- 35) = ''-35''"
  "intToString (- 75) = ''-75''" "intToString (- 50) = ''-50''" "intToString 149 = ''149''"
  "intToString 120 = ''120''"
  by (simp_all add: intToString_def natToString_small natToString_step digitChar_def)

lemma two_bounds:
  "sceneBounds [\<lparr>vx = 0, vy = 1, height = 1, color = ''#3B82F6''\<rparr>,
                \<lparr>vx = 1, vy = 0, height = 1, color = ''#3B82F6''\<rparr>]
     = Some (- (sqrt 3 * 20), - 10, sqrt 3 * 20, 30)"
proof -
  have p: "0 < sqrt 3" by simp
  show ?thesis
    using p by (simp add: sceneBounds_def corners_def Let_def growBounds.simps px_grid py_grid
        min_def max_def)
qed

lemma two_viewBox:
  "viewBoxString (\<lambda>r. intToString \<lfloor>r\<rfloor>) (Some (- (sqrt 3 * 20), - 10, sqrt 3 * 20, 30))
     = ''-75 -50 149 120''"
proof -
  have a: "\<lfloor>- (sqrt 3 * 20) - 40\<rfloor> = - 75"
    by (rule floor_unique) (use sqrt3_bounds in simp_all)
  have b: "\<lfloor>sqrt 3 * 20 - - (sqrt 3 * 20) + 40 * 2\<rfloor> = 149"
    by (rule floor_unique) (use sqrt3_bounds in simp_all)
  have c: "\<lfloor>(- 10 :: real) - 40\<rfloor> = - 50" "\<lfloor>(30 :: real) - - 10 + 40 * 2\<rfloor> = 120"
    by simp_all
  show ?thesis
    unfolding viewBoxString_def Let_def option.case prod.case a b c int_text by simp
qed

lemma fills_45:
  "adjustBrightness ''#3B82F6'' (calculateLighting 45 Right) = ''#246bdf''"
  "adjustBrightness ''#3B82F6'' (calculateLighting 45 Left) = ''#2e75e9''"
  using adjust_blue_right [OF lighting_45(3,4)] adjust_blue_left [OF lighting_45(1,2)]
  by simp_all

section \<open>The claims\<close>

text \<open>
  C1 (as the code has it). \<open>addVoxel\<close> is the store's upsert: the height is the hook's
  \<open>blockHeight\<close>, the color its \<open>selectedColor\<close>. It checks nothing and cannot fail:
  whatever the coordinates, the block height and the selected color are, the call stores a
  voxel of that height and color under the key of \<open>(x, y)\<close>, and the newest snapshot of the
  history is the new store. The ranges are kept by the callers only (the grid's cells, the
  height slider, the color picker).
\<close>

theorem addVoxel_unchecked:
  "\<exists>v. voxels (addVoxel x y now s) = map_set (voxels s) (getKey x y) v
       \<and> height v = blockHeight s \<and> color v = selectedColor s
       \<and> hasVoxel (addVoxel x y now s) x y
       \<and> history (addVoxel x y now s) \<noteq> []
       \<and> last (history (addVoxel x y now s))
           = \<lparr>hs_voxels = voxels (addVoxel x y now s), hs_timestamp = now\<rparr>"
proof -
  obtain v where nv: "newVoxelsOf x y s = map_set (voxels s) (getKey x y) v"
    and hv: "height v = blockHeight s" and cv: "color v = selectedColor s"
    using newVoxelsOf_set by blast
  have vx: "voxels (addVoxel x y now s) = newVoxelsOf x y s"
    by (simp add: addVoxel_as_save)
  have h: "history (addVoxel x y now s) \<noteq> [] \<and> last (history (addVoxel x y now s))
           = \<lparr>hs_voxels = newVoxelsOf x y s, hs_timestamp = now\<rparr>"
    unfolding addVoxel_as_save [of x y now s] by (rule save_history_nonempty)
  show ?thesis
    using nv hv cv hasVoxel_addVoxel [of x y now s] h vx by auto
qed

text \<open>
  C1 as stated fails: a call with \<open>x = 20\<close>, a call with block height \<open>11\<close> and a call with
  the color \<open>red\<close> each return normally and change the store, which was empty before.
\<close>

theorem upsert_validation_counterexample:
  "voxels (addVoxel 20 0 0 initialHook)
     = [(''20,0'', \<lparr>vx = 20, vy = 0, height = 1, color = ''#3B82F6''\<rparr>)]
   \<and> voxels (addVoxel 0 0 0 (initialHook\<lparr>blockHeight := 11\<rparr>))
     = [(''0,0'', \<lparr>vx = 0, vy = 0, height = 11, color = ''#3B82F6''\<rparr>)]
   \<and> voxels (addVoxel 0 0 0 (initialHook\<lparr>selectedColor := ''red''\<rparr>))
     = [(''0,0'', \<lparr>vx = 0, vy = 0, height = 1, color = ''red''\<rparr>)]
   \<and> voxels initialHook = []"
  by (simp add: addVoxel_def Let_def key_20_0 key_0_0 initialHook_def)

text \<open>
  C2 (as the code has it). From the initial hook, after \<open>addVoxel 0 0\<close> (height 1, color
  \<open>#3B82F6\<close>, lighting angle 45) the scene has exactly three faces, those of the one voxel:
  right, left, top. The right fill is \<open>adjustBrightness\<close> of the color by
  \<open>-30 + cos(45 deg) * 10\<close>, which is \<open>#246bdf\<close>; the left fill is \<open>adjustBrightness\<close> of the
  color by \<open>-20 + sin(45 deg) * 10\<close>, which is \<open>#2e75e9\<close>; the top fill is the color
  re-encoded by \<open>adjustBrightness\<close> with offset 0, which writes the same value with
  lower-case digits: \<open>#3b82f6\<close>.
\<close>

theorem single_voxel_scene:
  "voxels (addVoxel 0 0 now initialHook) = [(''0,0'', blueVoxel)]
   \<and> lightingAngle (addVoxel 0 0 now initialHook) = 45
   \<and> length (sceneFaces num (voxels (addVoxel 0 0 now initialHook)) 45) = 3
   \<and> sceneFaces num (voxels (addVoxel 0 0 now initialHook)) 45
       = map (pathElement num) (voxelFaces 45 blueVoxel)
   \<and> map fill (voxelFaces 45 blueVoxel)
       = [adjustBrightness ''#3B82F6'' (- 30 + cos (45 * pi / 180) * 10),
          adjustBrightness ''#3B82F6'' (- 20 + sin (45 * pi / 180) * 10),
          ''#3b82f6'']
   \<and> adjustBrightness ''#3B82F6'' (- 30 + cos (45 * pi / 180) * 10) = ''#246bdf''
   \<and> adjustBrightness ''#3B82F6'' (- 20 + sin (45 * pi / 180) * 10) = ''#2e75e9''"
proof -
  have faces: "sceneFaces num (voxels (addVoxel 0 0 now initialHook)) 45
       = map (pathElement num) (voxelFaces 45 blueVoxel)"
    by (simp add: sceneFaces_def first_voxel sorted_single pushFaces_concat)
  have n: "length (sceneFaces num (voxels (addVoxel 0 0 now initialHook)) 45) = 3"
    unfolding faces by (simp add: voxelFaces_def)
  have fills: "map fill (voxelFaces 45 blueVoxel)
       = [adjustBrightness ''#3B82F6'' (- 30 + cos (45 * pi / 180) * 10),
          adjustBrightness ''#3B82F6'' (- 20 + sin (45 * pi / 180) * 10),
          ''#3b82f6'']"
    using adjust_blue_0 by (simp add: voxelFaces_def fill_face blueVoxel_def)
  have r: "adjustBrightness ''#3B82F6'' (- 30 + cos (45 * pi / 180) * 10) = ''#246bdf''"
    using adjust_blue_right [OF lighting_45(3,4)] by simp
  have l: "adjustBrightness ''#3B82F6'' (- 20 + sin (45 * pi / 180) * 10) = ''#2e75e9''"
    using adjust_blue_left [OF lighting_45(1,2)] by simp
  show ?thesis
    using first_voxel first_voxel_angle n faces fills r l by (intro conjI)
qed

text \<open>
  C2 as stated fails at the top face: its fill is \<open>#3b82f6\<close>, not the string \<open>#3B82F6\<close>
  that was stored.
\<close>

theorem top_fill_counterexample:
  "sortedVoxels (voxels (addVoxel 0 0 0 initialHook)) = [blueVoxel]
   \<and> color blueVoxel = ''#3B82F6''
   \<and> fill (generateVoxelFace blueVoxel Top 45) = ''#3b82f6''
   \<and> fill (generateVoxelFace blueVoxel Top 45) \<noteq> ''#3B82F6''"
proof -
  have f: "fill (generateVoxelFace blueVoxel Top 45) = ''#3b82f6''"
    using adjust_blue_0 by (simp add: fill_face blueVoxel_def)
  have s: "sortedVoxels (voxels (addVoxel 0 0 0 initialHook)) = [blueVoxel]"
    by (simp add: first_voxel sorted_single)
  have c: "color blueVoxel = ''#3B82F6''" by (simp add: blueVoxel_def)
  show ?thesis unfolding f using s c by simp
qed

text \<open>
  C3. The history invariant \<open>hist_inv\<close> (\<open>-1 \<le> index < length\<close>, \<open>index = -1\<close> only for the
  empty history, \<open>length \<le> 50\<close>) holds in the initial state \<open>([], -1)\<close> and is kept by
  \<open>saveToHistory\<close>, \<open>undo\<close> and \<open>redo\<close>, none of which fails on a state that satisfies it.
  When the save would make the array longer than 50, the oldest snapshot is dropped and the
  index stays; otherwise the array is cut after the index, the snapshot is appended and the
  index moves up by one.
\<close>

theorem history_invariant:
  assumes "hist_inv s"
  shows "hist_inv initialHook \<and> history initialHook = [] \<and> historyIndex initialHook = - 1
       \<and> hist_inv (saveToHistory nv now s)
       \<and> (\<exists>s'. undo s = Inr s' \<and> hist_inv s')
       \<and> (\<exists>s'. redo s = Inr s' \<and> hist_inv s')
       \<and> (if MAX_HISTORY < length (slice0 (history s) (historyIndex s + 1)
                                   @ [\<lparr>hs_voxels = nv, hs_timestamp = now\<rparr>])
          then history (saveToHistory nv now s)
                 = tl (history s) @ [\<lparr>hs_voxels = nv, hs_timestamp = now\<rparr>]
               \<and> historyIndex (saveToHistory nv now s) = historyIndex s
          else history (saveToHistory nv now s)
                 = take (nat (historyIndex s + 1)) (history s)
                     @ [\<lparr>hs_voxels = nv, hs_timestamp = now\<rparr>]
               \<and> historyIndex (saveToHistory nv now s) = historyIndex s + 1)"
proof -
  let ?h = "\<lparr>hs_voxels = nv, hs_timestamp = now\<rparr>"
  have idx: "0 \<le> historyIndex s + 1"
    using assms by (auto simp: hist_inv_def split: if_splits)
  have ev: "history (saveToHistory nv now s) = tl (history s) @ [?h]
            \<and> historyIndex (saveToHistory nv now s) = historyIndex s"
    if big: "MAX_HISTORY < length (slice0 (history s) (historyIndex s + 1) @ [?h])"
  proof -
    have full: "slice0 (history s) (historyIndex s + 1) = history s"
      and len: "length (history s) = MAX_HISTORY"
      using save_evicts [OF assms big] by simp_all
    have ne: "history s \<noteq> []" using len by (auto simp: MAX_HISTORY_def)
    show ?thesis
      using big ne by (simp add: saveToHistory_def Let_def full shift_tl)
  qed
  have nev: "history (saveToHistory nv now s) = take (nat (historyIndex s + 1)) (history s) @ [?h]
            \<and> historyIndex (saveToHistory nv now s) = historyIndex s + 1"
    if small: "\<not> MAX_HISTORY < length (slice0 (history s) (historyIndex s + 1) @ [?h])"
    using small idx by (simp add: saveToHistory_def Let_def slice0_take)
  show ?thesis
    using hist_inv_initial hist_inv_save [OF assms] undo_ok [OF assms] redo_ok [OF assms] ev nev
    by (simp add: initialHook_def)
qed

text \<open>
  The invariant at a full history: saving once more keeps 50 snapshots, drops the oldest
  and leaves the index at 49.
\<close>

theorem history_invariant_witness:
  "hist_inv fullHistory
   \<and> hist_inv (saveToHistory [] 7 fullHistory)
   \<and> length (history (saveToHistory [] 7 fullHistory)) = 50
   \<and> history (saveToHistory [] 7 fullHistory)
       = replicate 49 \<lparr>hs_voxels = [], hs_timestamp = 0\<rparr> @ [\<lparr>hs_voxels = [], hs_timestamp = 7\<rparr>]
   \<and> historyIndex (saveToHistory [] 7 fullHistory) = 49"
proof -
  have inv: "hist_inv fullHistory"
    by (simp add: hist_inv_def fullHistory_def initialHook_def MAX_HISTORY_def)
  have sl: "slice0 (history fullHistory) (historyIndex fullHistory + 1) = history fullHistory"
    by (simp add: fullHistory_def slice0_take)
  have big: "MAX_HISTORY < length (slice0 (history fullHistory) (historyIndex fullHistory + 1)
               @ [\<lparr>hs_voxels = [], hs_timestamp = 7\<rparr>])"
    unfolding sl by (simp add: fullHistory_def MAX_HISTORY_def)
  have tl50: "tl (history fullHistory) = replicate 49 \<lparr>hs_voxels = [], hs_timestamp = 0\<rparr>"
    by (simp add: fullHistory_def)
  have idx: "historyIndex fullHistory = 49" by (simp add: fullHistory_def)
  show ?thesis
    using history_invariant [OF inv, of "[]" 7] inv big tl50 idx by simp
qed

text \<open>
  C4. After 60 edits from the initial hook, each of which takes a snapshot, the history
  holds at most 50 snapshots (exactly 50) and \<open>canUndo\<close> is true. 49 calls of \<open>undo\<close> succeed
  and end at index 0, where \<open>canUndo\<close> is false and a further \<open>undo\<close> changes nothing; the
  store is then the oldest snapshot kept, which is the store after the eleventh edit, not
  the store after the first.
\<close>

theorem sixty_edits_history_bound:
  assumes "length es = 60" and "allTakeSnapshots es initialHook"
  shows "length (history (applyEdits es initialHook)) \<le> 50
       \<and> canUndo (applyEdits es initialHook)
       \<and> (\<exists>s'. undoTimes 49 (applyEdits es initialHook) = Inr s'
              \<and> historyIndex s' = 0 \<and> \<not> canUndo s' \<and> undo s' = Inr s'
              \<and> history s' = history (applyEdits es initialHook)
              \<and> voxels s' = hs_voxels (hd (history s'))
              \<and> voxels s' = voxels (applyEdits (take 11 es) initialHook))"
proof -
  let ?s = "applyEdits es initialHook"
  have tip: "historyIndex ?s = int (length (history ?s)) - 1"
    and len: "length (history ?s) = min (length es) MAX_HISTORY"
    and sn: "map hs_voxels (history ?s)
             = drop (length es - MAX_HISTORY) (map (storeAfter es) [0..<length es])"
    using edits_at_tip [OF assms(2)] by simp_all
  have len50: "length (history ?s) = 50" using len assms(1) by (simp add: MAX_HISTORY_def)
  have idx: "historyIndex ?s = 49" using tip len50 by simp
  have ne: "history ?s \<noteq> []" using len50 by auto
  have oldest: "hs_voxels (hd (history ?s)) = voxels (applyEdits (take 11 es) initialHook)"
  proof -
    have "hs_voxels (hd (history ?s)) = map hs_voxels (history ?s) ! 0"
      using ne by (simp add: hd_conv_nth)
    also have "\<dots> = drop 10 (map (storeAfter es) [0..<60]) ! 0"
      using sn assms(1) by (simp add: MAX_HISTORY_def)
    also have "\<dots> = storeAfter es 10"
      by (simp del: upt_rec_numeral)
    finally show ?thesis by (simp add: storeAfter_def)
  qed
  from undoTimes_steps [of 49 ?s] obtain s' where
    r: "undoTimes 49 ?s = Inr s'" and i: "historyIndex s' = 0"
    and h: "history s' = history ?s"
    and v: "voxels s' = hs_voxels (history ?s ! 0)"
    using idx len50 by auto
  have v1: "voxels s' = hs_voxels (hd (history s'))"
    using v ne h by (simp add: hd_conv_nth)
  have nu: "\<not> canUndo s'" using i by (simp add: canUndo_def)
  have fin: "undoTimes 49 ?s = Inr s'
              \<and> historyIndex s' = 0 \<and> \<not> canUndo s' \<and> undo s' = Inr s'
              \<and> history s' = history ?s
              \<and> voxels s' = hs_voxels (hd (history s'))
              \<and> voxels s' = voxels (applyEdits (take 11 es) initialHook)"
    using r i nu undo_noop [OF nu] h v1 oldest by simp
  have cu: "canUndo ?s" using idx by (simp add: canUndo_def)
  have ex: "\<exists>s'. undoTimes 49 ?s = Inr s'
              \<and> historyIndex s' = 0 \<and> \<not> canUndo s' \<and> undo s' = Inr s'
              \<and> history s' = history ?s
              \<and> voxels s' = hs_voxels (hd (history s'))
              \<and> voxels s' = voxels (applyEdits (take 11 es) initialHook)"
    by (rule exI [of _ s']) (rule fin)
  have le: "length (history ?s) \<le> 50" using len50 by simp
  show ?thesis
    using le cu ex by (intro conjI)
qed

text \<open>
  Sixty clicks on sixty cells: after the 49 undos the store holds a voxel at \<open>(10, 0)\<close>, the
  cell of the eleventh click, which the store after the first click does not.
\<close>

theorem sixty_edits_history_bound_witness:
  "length sixtyEdits = 60 \<and> allTakeSnapshots sixtyEdits initialHook
   \<and> length (history (applyEdits sixtyEdits initialHook)) \<le> 50
   \<and> canUndo (applyEdits sixtyEdits initialHook)
   \<and> (\<exists>s'. undoTimes 49 (applyEdits sixtyEdits initialHook) = Inr s'
          \<and> \<not> canUndo s' \<and> undo s' = Inr s'
          \<and> hasVoxel s' 10 0
          \<and> \<not> hasVoxel (applyEdits (take 1 sixtyEdits) initialHook) 10 0)"
proof -
  have l: "length sixtyEdits = 60" by (simp add: sixtyEdits_def)
  have sn: "allTakeSnapshots sixtyEdits initialHook"
    unfolding sixtyEdits_def by (rule adds_take_snapshots)
  have u11: "[0..<11::nat] = [0..<10] @ [10]"
    using upt_Suc_append [of 0 10] by simp
  have t11: "take 11 sixtyEdits = take 10 sixtyEdits @ [(AddVoxel 10 0, 10)]"
    by (simp add: sixtyEdits_def take_map u11)
  have t1: "take 1 sixtyEdits = [] @ [(AddVoxel 0 0, 0)]"
    by (simp add: sixtyEdits_def take_map)
  have first: "\<not> hasVoxel (applyEdits (take 1 sixtyEdits) initialHook) 10 0"
    unfolding t1 applyEdits_snoc
    by (simp add: hasVoxel_def map_has_def addVoxel_def Let_def key_0_0 key_10_0 initialHook_def)
  have eleventh: "hasVoxel (applyEdits (take 11 sixtyEdits) initialHook) 10 0"
    unfolding t11 applyEdits_snoc applyEdit.simps by (rule hasVoxel_addVoxel)
  from sixty_edits_history_bound [OF l sn] obtain s' where
    b: "length (history (applyEdits sixtyEdits initialHook)) \<le> 50"
    and c: "canUndo (applyEdits sixtyEdits initialHook)"
    and r: "undoTimes 49 (applyEdits sixtyEdits initialHook) = Inr s'"
    and nu: "\<not> canUndo s'" and u: "undo s' = Inr s'"
    and v: "voxels s' = voxels (applyEdits (take 11 sixtyEdits) initialHook)"
    by blast
  have hv: "hasVoxel s' 10 0"
    using eleventh by (simp add: hasVoxel_def v)
  have ex: "\<exists>s'. undoTimes 49 (applyEdits sixtyEdits initialHook) = Inr s'
          \<and> \<not> canUndo s' \<and> undo s' = Inr s'
          \<and> hasVoxel s' 10 0
          \<and> \<not> hasVoxel (applyEdits (take 1 sixtyEdits) initialHook) 10 0"
    using r nu u hv first by (intro exI [of _ s'] conjI)
  show ?thesis
    using l sn b c ex by (intro conjI)
qed

text \<open>
  C5. Saving cuts the snapshot array after the index, appends the new snapshot and, if
  that makes more than 50, drops the oldest: what could be redone is gone. From the
  initial hook, three edits, two undos and a new edit leave two snapshots (of the first and
  of the new edit) with the index at the second, and \<open>redo\<close> then returns the hook
  unchanged.
\<close>

theorem save_discards_redo_branch:
  assumes "0 \<le> historyIndex s + 1"
  shows "history (saveToHistory nv now s)
         = (let h = take (nat (historyIndex s + 1)) (history s)
                      @ [\<lparr>hs_voxels = nv, hs_timestamp = now\<rparr>]
            in if MAX_HISTORY < length h then tl h else h)
       \<and> (\<exists>s'. andThen (andThen (undo (addVoxel x3 y3 t3 (addVoxel x2 y2 t2
                                          (addVoxel x1 y1 t1 initialHook))))
                           undo)
                   (\<lambda>u. Inr (addVoxel x4 y4 t4 u)) = Inr s'
              \<and> map hs_timestamp (history s') = [t1, t4] \<and> historyIndex s' = 1
              \<and> \<not> canRedo s' \<and> redo s' = Inr s')"
proof (intro conjI)
  show "history (saveToHistory nv now s)
         = (let h = take (nat (historyIndex s + 1)) (history s)
                      @ [\<lparr>hs_voxels = nv, hs_timestamp = now\<rparr>]
            in if MAX_HISTORY < length h then tl h else h)"
    by (rule save_truncates [OF assms])
  show "\<exists>s'. andThen (andThen (undo (addVoxel x3 y3 t3 (addVoxel x2 y2 t2
                                          (addVoxel x1 y1 t1 initialHook))))
                           undo)
                   (\<lambda>u. Inr (addVoxel x4 y4 t4 u)) = Inr s'
              \<and> map hs_timestamp (history s') = [t1, t4] \<and> historyIndex s' = 1
              \<and> \<not> canRedo s' \<and> redo s' = Inr s'"
    by (rule three_edits_two_undos_one_edit)
qed

text \<open>
  With three snapshots and the index at the first, a save leaves the first snapshot and
  the new one.
\<close>

theorem save_discards_redo_branch_witness:
  "0 \<le> historyIndex redoBranch + 1
   \<and> history redoBranch = [\<lparr>hs_voxels = [], hs_timestamp = 1\<rparr>,
                           \<lparr>hs_voxels = [], hs_timestamp = 2\<rparr>,
                           \<lparr>hs_voxels = [], hs_timestamp = 3\<rparr>]
   \<and> history (saveToHistory [] 4 redoBranch)
       = [\<lparr>hs_voxels = [], hs_timestamp = 1\<rparr>, \<lparr>hs_voxels = [], hs_timestamp = 4\<rparr>]
   \<and> (\<exists>s'. andThen (andThen (undo (addVoxel 2 0 3 (addVoxel 1 0 2 (addVoxel 0 0 1 initialHook))))
                       undo)
               (\<lambda>u. Inr (addVoxel 3 0 4 u)) = Inr s'
          \<and> map hs_timestamp (history s') = [1, 4] \<and> historyIndex s' = 1
          \<and> \<not> canRedo s' \<and> redo s' = Inr s')"
proof -
  have a: "0 \<le> historyIndex redoBranch + 1" by (simp add: redoBranch_def)
  have h: "history redoBranch = [\<lparr>hs_voxels = [], hs_timestamp = 1\<rparr>,
                           \<lparr>hs_voxels = [], hs_timestamp = 2\<rparr>,
                           \<lparr>hs_voxels = [], hs_timestamp = 3\<rparr>]"
    by (simp add: redoBranch_def)
  have i: "historyIndex redoBranch = 0" by (simp add: redoBranch_def)
  show ?thesis
    using save_discards_redo_branch [OF a, of "[]" 4 2 0 3 1 0 2 0 0 1 3 0 4] a
    by (simp add: h i MAX_HISTORY_def Let_def)
qed

text \<open>
  C6. \<open>undo\<close> with \<open>canUndo\<close> false and \<open>redo\<close> with \<open>canRedo\<close> false return normally and
  return the hook as it was: the store, the snapshots and the index are unchanged. This
  holds in every state, reachable or not.
\<close>

theorem undo_redo_unavailable_noop:
  "(\<not> canUndo s \<longrightarrow> undo s = Inr s) \<and> (\<not> canRedo s \<longrightarrow> redo s = Inr s)"
  by (simp add: canUndo_def canRedo_def undo_def redo_def)

text \<open>
  In the initial hook neither is available; after one edit \<open>undo\<close> is still unavailable
  (the index is 0) and so is \<open>redo\<close>.
\<close>

theorem undo_redo_unavailable_noop_witness:
  "\<not> canUndo initialHook \<and> undo initialHook = Inr initialHook
   \<and> \<not> canRedo initialHook \<and> redo initialHook = Inr initialHook
   \<and> \<not> canUndo (clearGrid 5 initialHook)
   \<and> undo (clearGrid 5 initialHook) = Inr (clearGrid 5 initialHook)"
proof -
  have a: "\<not> canUndo initialHook" by (simp add: canUndo_def initialHook_def)
  have b: "\<not> canRedo initialHook" by (simp add: canRedo_def initialHook_def)
  have c: "\<not> canUndo (clearGrid 5 initialHook)"
    by (simp add: canUndo_def clearGrid_def saveToHistory_def slice0_take Let_def
        initialHook_def MAX_HISTORY_def)
  show ?thesis
    using undo_redo_unavailable_noop [of initialHook]
      undo_redo_unavailable_noop [of "clearGrid 5 initialHook"] a b c
    by simp
qed


text \<open>
  C8. For a store that is not empty, the faces of the scene are those of the voxels one
  voxel after the other, each voxel giving its right face, then its left face, then its
  top face; the voxels come in ascending order of the key \<open>y + x * 100\<close>: the list of the
  voxels is sorted by that key, it is a rearrangement of the store's values, and voxels of
  equal key keep the order of the store. Each face is the \<open>path\<close> element with the four
  corners of that face in its \<open>d\<close> text and the color of the voxel, adjusted by the lighting
  of that face, as its \<open>fill\<close>. The SVG text is the opening with the view box, these
  elements in that order, each but the last followed by a line break and four blanks, and
  the closing.
\<close>

theorem scene_face_order:
  assumes "m \<noteq> []"
  shows "let q = [CHR 0x22];
             d = (\<lambda>p1 p2 p3 p4.
                    ''M '' @ num (px p1) @ '' '' @ num (py p1) @ '' L '' @ num (px p2) @ '' '' @ num (py p2)
                      @ '' L '' @ num (px p3) @ '' '' @ num (py p3)
                      @ '' L '' @ num (px p4) @ '' '' @ num (py p4) @ '' Z'');
             el = (\<lambda>dt f. ''<path d='' @ q @ dt @ q @ '' fill='' @ q @ f @ q
                      @ '' stroke='' @ q @ ''#1e293b'' @ q @ '' stroke-width='' @ q @ ''0.5'' @ q @ ''/>'');
             rt = (\<lambda>v. let x = real_of_int (vx v); y = real_of_int (vy v); h = real_of_int (height v)
                        in el (d (gridToIsometric (x + 1) y h) (gridToIsometric (x + 1) (y + 1) h)
                                 (gridToIsometric (x + 1) (y + 1) 0) (gridToIsometric (x + 1) y 0))
                              (adjustBrightness (color v) (- 30 + cos (angle * pi / 180) * 10)));
             lf = (\<lambda>v. let x = real_of_int (vx v); y = real_of_int (vy v); h = real_of_int (height v)
                        in el (d (gridToIsometric x y h) (gridToIsometric x (y + 1) h)
                                 (gridToIsometric x (y + 1) 0) (gridToIsometric x y 0))
                              (adjustBrightness (color v) (- 20 + sin (angle * pi / 180) * 10)));
             tp = (\<lambda>v. let x = real_of_int (vx v); y = real_of_int (vy v); h = real_of_int (height v)
                        in el (d (gridToIsometric x y h) (gridToIsometric (x + 1) y h)
                                 (gridToIsometric (x + 1) (y + 1) h) (gridToIsometric x (y + 1) h))
                              (adjustBrightness (color v) 0));
             fs = concat (map (\<lambda>v. [rt v, lf v, tp v]) (sortedVoxels m));
             sep = CHR 0x0A # ''    ''
         in sceneFaces num m angle = fs
          \<and> sorted (map (\<lambda>v. vy v + vx v * 100) (sortedVoxels m))
          \<and> mset (sortedVoxels m) = mset (map_values m)
          \<and> (\<forall>k. filter (\<lambda>v. vy v + vx v * 100 = k) (sortedVoxels m)
                   = filter (\<lambda>v. vy v + vx v * 100 = k) (map_values m))
          \<and> generateSceneSVG num m angle
              = ''<svg xmlns='' @ q @ ''http://www.w3.org/2000/svg'' @ q
                  @ '' viewBox='' @ q @ viewBoxString num (sceneBounds (sortedVoxels m)) @ q
                  @ '' preserveAspectRatio='' @ q @ ''xMidYMid meet'' @ q @ ''>'' @ [CHR 0x0A]
                  @ ''  <g>'' @ [CHR 0x0A]
                  @ ''    '' @ concat (map (\<lambda>f. f @ sep) (butlast fs)) @ last fs @ [CHR 0x0A]
                  @ ''  </g>'' @ [CHR 0x0A]
                  @ ''</svg>''"
proof -
  define q where "q = [CHR 0x22]"
  define d where "d = (\<lambda>(p1::IsometricCoords) (p2::IsometricCoords) (p3::IsometricCoords)
                        (p4::IsometricCoords).
                    ''M '' @ num (px p1) @ '' '' @ num (py p1) @ '' L '' @ num (px p2) @ '' '' @ num (py p2)
                      @ '' L '' @ num (px p3) @ '' '' @ num (py p3)
                      @ '' L '' @ num (px p4) @ '' '' @ num (py p4) @ '' Z'')"
  define el where "el = (\<lambda>dt f. ''<path d='' @ q @ dt @ q @ '' fill='' @ q @ f @ q
                      @ '' stroke='' @ q @ ''#1e293b'' @ q @ '' stroke-width='' @ q @ ''0.5'' @ q @ ''/>'')"
  define rt where "rt = (\<lambda>v::Voxel. let x = real_of_int (vx v); y = real_of_int (vy v); h = real_of_int (height v)
                        in el (d (gridToIsometric (x + 1) y h) (gridToIsometric (x + 1) (y + 1) h)
                                 (gridToIsometric (x + 1) (y + 1) 0) (gridToIsometric (x + 1) y 0))
                              (adjustBrightness (color v) (- 30 + cos (angle * pi / 180) * 10)))"
  define lf where "lf = (\<lambda>v::Voxel. let x = real_of_int (vx v); y = real_of_int (vy v); h = real_of_int (height v)
                        in el (d (gridToIsometric x y h) (gridToIsometric x (y + 1) h)
                                 (gridToIsometric x (y + 1) 0) (gridToIsometric x y 0))
                              (adjustBrightness (color v) (- 20 + sin (angle * pi / 180) * 10)))"
  define tp where "tp = (\<lambda>v::Voxel. let x = real_of_int (vx v); y = real_of_int (vy v); h = real_of_int (height v)
                        in el (d (gridToIsometric x y h) (gridToIsometric (x + 1) y h)
                                 (gridToIsometric (x + 1) (y + 1) h) (gridToIsometric x (y + 1) h))
                              (adjustBrightness (color v) 0))"
  define fs where "fs = concat (map (\<lambda>v. [rt v, lf v, tp v]) (sortedVoxels m))"
  have el: "map (pathElement num) (voxelFaces angle v) = [rt v, lf v, tp v]" for v
    by (simp add: voxelFaces_def pathElement_def generateVoxelFace_def dq_def Let_def
        rt_def lf_def tp_def el_def d_def q_def)
  have faces: "sceneFaces num m angle = fs"
    by (simp add: sceneFaces_def pushFaces_concat el fs_def)
  have so: "sorted (map (\<lambda>v. vy v + vx v * 100) (sortedVoxels m))"
    using sorted_sort_key [of order "map_values m"] by (simp add: sortedVoxels_def order_def [abs_def])
  have ms: "mset (sortedVoxels m) = mset (map_values m)"
    by (simp add: sortedVoxels_def)
  have st: "\<forall>k. filter (\<lambda>v. vy v + vx v * 100 = k) (sortedVoxels m)
                   = filter (\<lambda>v. vy v + vx v * 100 = k) (map_values m)"
    using sort_key_stable [of order _ "map_values m"] by (simp add: sortedVoxels_def order_def)
  obtain v vs where sv: "sortedVoxels m = v # vs"
    using sortedVoxels_nonempty [OF assms] by (cases "sortedVoxels m") auto
  have fne: "fs \<noteq> []" by (simp add: fs_def sv)
  have ne: "map_size m \<noteq> 0" using assms by (simp add: map_size_def)
  have svg: "generateSceneSVG num m angle
              = ''<svg xmlns='' @ q @ ''http://www.w3.org/2000/svg'' @ q
                  @ '' viewBox='' @ q @ viewBoxString num (sceneBounds (sortedVoxels m)) @ q
                  @ '' preserveAspectRatio='' @ q @ ''xMidYMid meet'' @ q @ ''>'' @ [CHR 0x0A]
                  @ ''  <g>'' @ [CHR 0x0A]
                  @ ''    '' @ concat (map (\<lambda>f. f @ (CHR 0x0A # ''    '')) (butlast fs)) @ last fs @ [CHR 0x0A]
                  @ ''  </g>'' @ [CHR 0x0A]
                  @ ''</svg>''"
    using ne by (simp add: generateSceneSVG_def faces joinWith_butlast [OF fne] dq_def q_def)
  show ?thesis
    unfolding Let_def
    using faces so ms st svg
    unfolding fs_def rt_def lf_def tp_def el_def d_def q_def Let_def
    by (intro conjI)
qed

text \<open>
  A store painted at \<open>(1, 0)\<close> and then at \<open>(0, 1)\<close>, at lighting angle 45, with every
  number printed as its integer part (rounded down): the keys are 100 and 1, so the scene
  starts with the three faces of the voxel at \<open>(0, 1)\<close>; the six elements and the whole SVG
  text are as follows.
\<close>

theorem scene_face_order_witness:
  "twoVoxels \<noteq> []
   \<and> map_values twoVoxels = [\<lparr>vx = 1, vy = 0, height = 1, color = ''#3B82F6''\<rparr>,
                             \<lparr>vx = 0, vy = 1, height = 1, color = ''#3B82F6''\<rparr>]
   \<and> sortedVoxels twoVoxels = [\<lparr>vx = 0, vy = 1, height = 1, color = ''#3B82F6''\<rparr>,
                               \<lparr>vx = 1, vy = 0, height = 1, color = ''#3B82F6''\<rparr>]
   \<and> (let q = [CHR 0x22];
            el = (\<lambda>dt f. ''<path d='' @ q @ dt @ q @ '' fill='' @ q @ f @ q
                     @ '' stroke='' @ q @ ''#1e293b'' @ q @ '' stroke-width='' @ q @ ''0.5'' @ q @ ''/>'');
            sep = CHR 0x0A # ''    ''
        in sceneFaces (\<lambda>r. intToString \<lfloor>r\<rfloor>) twoVoxels 45
             = [el ''M 0 0 L -18 10 L -18 30 L 0 20 Z'' ''#246bdf'',
                el ''M -18 -10 L -35 0 L -35 20 L -18 10 Z'' ''#2e75e9'',
                el ''M -18 -10 L 0 0 L -18 10 L -35 0 Z'' ''#3b82f6'',
                el ''M 34 0 L 17 10 L 17 30 L 34 20 Z'' ''#246bdf'',
                el ''M 17 -10 L 0 0 L 0 20 L 17 10 Z'' ''#2e75e9'',
                el ''M 17 -10 L 34 0 L 17 10 L 0 0 Z'' ''#3b82f6'']
         \<and> generateSceneSVG (\<lambda>r. intToString \<lfloor>r\<rfloor>) twoVoxels 45
             = ''<svg xmlns='' @ q @ ''http://www.w3.org/2000/svg'' @ q
                 @ '' viewBox='' @ q @ ''-75 -50 149 120'' @ q
                 @ '' preserveAspectRatio='' @ q @ ''xMidYMid meet'' @ q @ ''>'' @ [CHR 0x0A]
                 @ ''  <g>'' @ [CHR 0x0A]
                 @ ''    '' @ el ''M 0 0 L -18 10 L -18 30 L 0 20 Z'' ''#246bdf''
                 @ sep @ el ''M -18 -10 L -35 0 L -35 20 L -18 10 Z'' ''#2e75e9''
                 @ sep @ el ''M -18 -10 L 0 0 L -18 10 L -35 0 Z'' ''#3b82f6''
                 @ sep @ el ''M 34 0 L 17 10 L 17 30 L 34 20 Z'' ''#246bdf''
                 @ sep @ el ''M 17 -10 L 0 0 L 0 20 L 17 10 Z'' ''#2e75e9''
                 @ sep @ el ''M 17 -10 L 34 0 L 17 10 L 0 0 Z'' ''#3b82f6'' @ [CHR 0x0A]
                 @ ''  </g>'' @ [CHR 0x0A]
                 @ ''</svg>'')"
proof -
  have ne: "twoVoxels \<noteq> []" by (simp add: two_voxels)
  have vs: "map_values twoVoxels = [\<lparr>vx = 1, vy = 0, height = 1, color = ''#3B82F6''\<rparr>,
                             \<lparr>vx = 0, vy = 1, height = 1, color = ''#3B82F6''\<rparr>]"
    by (simp add: two_voxels map_values_def)
  have so: "sortedVoxels twoVoxels = [\<lparr>vx = 0, vy = 1, height = 1, color = ''#3B82F6''\<rparr>,
                               \<lparr>vx = 1, vy = 0, height = 1, color = ''#3B82F6''\<rparr>]"
    by (simp add: sortedVoxels_def vs order_def)
  note inst = scene_face_order [OF ne, of "\<lambda>r. intToString \<lfloor>r\<rfloor>" 45,
      unfolded calculateLighting.simps(2,3) [of 45, symmetric]]
  show ?thesis
    using inst ne vs
    by (simp add: so Let_def px_floor py_grid int_text fills_45 adjust_blue_0 two_bounds two_viewBox
        del: calculateLighting.simps)
qed

text \<open>
  C9. For the empty store \<open>generateSceneSVG\<close> returns the fixed text
  \<open><svg xmlns="http://www.w3.org/2000/svg" viewBox="0 0 400 400"></svg>\<close>, whatever the
  lighting angle (and the printing of numbers) is: a square view box of side 400 and no
  path element. The function has no failure.
\<close>

theorem empty_store_scene:
  "generateSceneSVG num [] angle
     = ''<svg xmlns='' @ [CHR 0x22] @ ''http://www.w3.org/2000/svg'' @ [CHR 0x22]
         @ '' viewBox='' @ [CHR 0x22] @ ''0 0 400 400'' @ [CHR 0x22] @ ''></svg>''
   \<and> generateSceneSVG num [] angle = generateSceneSVG num' [] angle'
   \<and> (\<nexists>pre post. generateSceneSVG num [] angle = pre @ ''<path'' @ post)"
proof -
  have e: "generateSceneSVG n [] a = emptySceneSVG" for n a
    by (simp add: generateSceneSVG_def map_size_def)
  show ?thesis
    unfolding e using no_path_in_empty_scene by (auto simp: emptySceneSVG_def dq_def)
qed

text \<open>
  C10. \<open>removeVoxel\<close> on a cell that holds no voxel returns the hook unchanged: the same
  store, the same snapshots, the same index, so \<open>canUndo\<close> and \<open>canRedo\<close> are as before.
\<close>

theorem removeVoxel_absent_noop:
  "\<not> hasVoxel s x y \<Longrightarrow> removeVoxel x y now s = s"
  by (simp add: hasVoxel_def removeVoxel_def Let_def)

text \<open>After a click on \<open>(0, 0)\<close>, removing at \<open>(3, 4)\<close> changes nothing.\<close>

theorem removeVoxel_absent_noop_witness:
  "\<not> hasVoxel (addVoxel 0 0 1 initialHook) 3 4
   \<and> removeVoxel 3 4 2 (addVoxel 0 0 1 initialHook) = addVoxel 0 0 1 initialHook"
proof -
  have a: "\<not> hasVoxel (addVoxel 0 0 1 initialHook) 3 4"
    by (simp add: hasVoxel_def map_has_def addVoxel_def Let_def key_0_0 key_3_4 initialHook_def)
  show ?thesis using removeVoxel_absent_noop [OF a, of 2] a by simp
qed

end
